theory Spec2Isabelle
  imports Main "HOL-Library.AList" "HOL-Library.Sublist"
begin

section \<open>The launcher's build and mod reconciliation (main.py)\<close>

text \<open>
  The classes \<open>ModManager\<close>, \<open>VersionManager\<close> and \<open>Launcher\<close> of \<open>main.py\<close> act on the
  file system under the launcher's directory and on the launcher's HTTP API. Both are made
  explicit here: a function of the source becomes a function from a \<open>world\<close> (the files and
  the log of the I/O operations performed so far) to a result and the new world. A Python
  exception is the result \<open>Inl e\<close>; the world returned with it holds whatever had been
  written before the exception was raised.

  Calls of \<open>logging\<close> and of \<open>set_status_message\<close> are not part of the model:
  \<open>set_status_message\<close> catches every exception of its body, and neither call reads or
  writes anything the modelled functions depend on. Failures of the file system other than
  a missing path, a path of the wrong kind and an unreadable file (a full disk, a file that
  cannot be written or removed) are not modelled either.
\<close>

subsection \<open>Files\<close>

text \<open>
  A path is the list of its components below the launcher's directory (the process changes
  into it at start-up), so \<open>[]\<close> is that directory itself. A build name and a mod file
  name are taken as one component each.
\<close>

type_synonym path = "string list"

type_synonym bytes = "char list"

datatype node = Dir | File (readable: bool) (content: bytes)

type_synonym fs = "(path \<times> node) list"

datatype exn =
    RequestException
  | JSONDecodeError
  | ZeroDivisionError
  | TypeError
  | AttributeError
  | FileNotFoundError
  | FileExistsError
  | IsADirectoryError
  | NotADirectoryError
  | PermissionError
  | BadZipFile

text \<open>What \<open>except requests.exceptions.RequestException\<close> catches.\<close>

definition is_RequestException :: "exn \<Rightarrow> bool" where
  "is_RequestException e = (e = RequestException \<or> e = JSONDecodeError)"

datatype request =
    List_mod string
  | Download_mod string string
  | Download_fabric string

datatype event = Get request | Remove path | Rmtree path

record world =
  files :: fs
  events :: "event list"

definition emit :: "event \<Rightarrow> world \<Rightarrow> world" where
  "emit e w = w\<lparr>events := events w @ [e]\<rparr>"

definition events_since :: "world \<Rightarrow> world \<Rightarrow> event list" where
  "events_since w w' = drop (length (events w)) (events w')"

definition is_dir :: "fs \<Rightarrow> path \<Rightarrow> bool" where
  "is_dir fs p = (p = [] \<or> map_of fs p = Some Dir)"

definition is_file :: "fs \<Rightarrow> path \<Rightarrow> bool" where
  "is_file fs p = (case map_of fs p of Some (File r c) \<Rightarrow> True | _ \<Rightarrow> False)"

text \<open>
  \<open>os.makedirs(base / cs, exist_ok=True)\<close>, where \<open>base\<close> is a directory already: every
  missing directory on the way is created; a regular file on the way raises.
\<close>

fun makedirs_from :: "path \<Rightarrow> string list \<Rightarrow> fs \<Rightarrow> (exn + unit) \<times> fs" where
  "makedirs_from base [] fs = (Inr (), fs)"
| "makedirs_from base (c # cs) fs =
     (case map_of fs (base @ [c]) of
        None \<Rightarrow> makedirs_from (base @ [c]) cs (AList.update (base @ [c]) Dir fs)
      | Some Dir \<Rightarrow> makedirs_from (base @ [c]) cs fs
      | Some (File r b) \<Rightarrow>
          (Inl (if cs = [] then FileExistsError else NotADirectoryError), fs))"

definition os_makedirs :: "path \<Rightarrow> world \<Rightarrow> (exn + unit) \<times> world" where
  "os_makedirs p w =
     (case makedirs_from [] p (files w) of (r, fs') \<Rightarrow> (r, w\<lparr>files := fs'\<rparr>))"

text \<open>\<open>os.remove(p)\<close>: removes a regular file, raises on anything else.\<close>

definition os_remove :: "path \<Rightarrow> world \<Rightarrow> (exn + unit) \<times> world" where
  "os_remove p w =
     (case map_of (files w) p of
        None \<Rightarrow> (Inl FileNotFoundError, w)
      | Some Dir \<Rightarrow> (Inl IsADirectoryError, w)
      | Some (File r c) \<Rightarrow> (Inr (), emit (Remove p) (w\<lparr>files := AList.delete p (files w)\<rparr>)))"

text \<open>
  \<open>shutil.rmtree(p)\<close>: removes the directory \<open>p\<close> and everything below it; raises when
  \<open>p\<close> is missing or is not a directory.
\<close>

definition shutil_rmtree :: "path \<Rightarrow> world \<Rightarrow> (exn + unit) \<times> world" where
  "shutil_rmtree p w =
     (case map_of (files w) p of
        None \<Rightarrow> (Inl FileNotFoundError, w)
      | Some (File r c) \<Rightarrow> (Inl NotADirectoryError, w)
      | Some Dir \<Rightarrow>
          (Inr (), emit (Rmtree p) (w\<lparr>files := filter (\<lambda>(q, n). \<not> prefix p q) (files w)\<rparr>)))"

text \<open>
  \<open>open(p, "wb")\<close>: an existing regular file is truncated, a missing one is created in an
  existing directory.
\<close>

definition open_wb :: "path \<Rightarrow> world \<Rightarrow> (exn + unit) \<times> world" where
  "open_wb p w =
     (case map_of (files w) p of
        Some Dir \<Rightarrow> (Inl IsADirectoryError, w)
      | Some (File r c) \<Rightarrow> (Inr (), w\<lparr>files := AList.update p (File r []) (files w)\<rparr>)
      | None \<Rightarrow>
          (if p \<noteq> [] \<and> is_dir (files w) (butlast p)
           then (Inr (), w\<lparr>files := AList.update p (File True []) (files w)\<rparr>)
           else if p \<noteq> [] \<and> is_file (files w) (butlast p) then (Inl NotADirectoryError, w)
           else (Inl FileNotFoundError, w)))"

text \<open>\<open>file.write(chunk)\<close> on the file opened at \<open>p\<close>.\<close>

definition file_write :: "path \<Rightarrow> bytes \<Rightarrow> world \<Rightarrow> world" where
  "file_write p chunk w =
     (case map_of (files w) p of
        Some (File r c) \<Rightarrow> w\<lparr>files := AList.update p (File r (c @ chunk)) (files w)\<rparr>
      | _ \<Rightarrow> w)"

text \<open>\<open>Path.iterdir()\<close>: the entries of a directory, with their names.\<close>

definition iterdir :: "path \<Rightarrow> fs \<Rightarrow> exn + (string \<times> node) list" where
  "iterdir d fs =
     (if is_dir fs d
      then Inr (map (\<lambda>(p, n). (last p, n)) (filter (\<lambda>(p, n). p \<noteq> [] \<and> butlast p = d) fs))
      else if is_file fs d then Inl NotADirectoryError
      else Inl FileNotFoundError)"

subsection \<open>The remote API and the libraries\<close>

text \<open>
  A streamed response: \<open>requests.get\<close> either raises, or gives a status, the
  \<open>Content-Length\<close> header when there is one, and the chunks \<open>iter_content\<close> yields,
  after which the stream ends or breaks with a transport error.
\<close>

datatype stream_end = Complete | Interrupted

datatype stream_response =
    Stream_error
  | Stream (status: nat) (content_length: "int option") (chunks: "bytes list") (ending: stream_end)

text \<open>
  The response to \<open>list_mod\<close>: its body is a JSON object of file names and digests, or
  is not JSON at all. JSON of any other shape is not modelled.
\<close>

datatype json_body = Json_object "(string \<times> string) list" | Not_json

datatype json_response = Json_error | Json nat json_body

record installed_version =
  version_id :: string
  version_type :: string

text \<open>
  The environment of a run: the answers of the launcher API, and the library functions
  that are not part of the repository (\<open>hashlib.sha256(...).hexdigest()\<close>,
  \<open>minecraft_launcher_lib.utils.get_installed_versions\<close>, and \<open>ZipFile.extractall\<close>,
  which reads the archive at its first argument and writes below its second).
\<close>

record env =
  list_mod :: "string \<Rightarrow> json_response"
  mod_file :: "string \<Rightarrow> string \<Rightarrow> stream_response"
  fabric_archive :: "string \<Rightarrow> stream_response"
  sha256_hexdigest :: "bytes \<Rightarrow> string"
  get_installed_versions :: "fs \<Rightarrow> path \<Rightarrow> installed_version list"
  zip_extractall :: "path \<Rightarrow> path \<Rightarrow> fs \<Rightarrow> (exn + unit) \<times> fs"

definition builds_path :: path where
  "builds_path = [''builds'']"

definition build_path_of :: "string \<Rightarrow> path" where
  "build_path_of server_name = builds_path @ [server_name]"

definition mods_directory_of :: "string \<Rightarrow> path" where
  "mods_directory_of server_name = builds_path @ [server_name, ''mods'']"

definition local_zip_path_of :: "string \<Rightarrow> path" where
  "local_zip_path_of server_name = build_path_of server_name @ [''base_fabric.zip'']"

subsection \<open>Python dictionaries\<close>

text \<open>
  A \<open>dict\<close> is the list of its items in insertion order. \<open>d[k] = v\<close> is
  \<open>AList.update k v d\<close>: the value is replaced where the key is, or the item is added
  at the end. \<open>d.get(k)\<close> is \<open>map_of d k\<close>.
\<close>

type_synonym pydict = "(string \<times> string) list"

definition json_loads :: "(string \<times> string) list \<Rightarrow> pydict" where
  "json_loads items = foldl (\<lambda>d (k, v). AList.update k v d) [] items"

subsection \<open>Streaming a response into a file\<close>

text \<open>
  \<open>int(response.headers.get('Content-Length', 0))\<close>. The header, when there is one, is
  taken to hold a number.
\<close>

definition total_size_of :: "int option \<Rightarrow> int" where
  "total_size_of h = (case h of None \<Rightarrow> 0 | Some n \<Rightarrow> n)"

text \<open>
  \<open>int(downloaded * 100 / total_size)\<close>. The quotient only feeds the status line; what
  matters to the caller is that the division raises when the total is zero.
\<close>

definition py_percent :: "int \<Rightarrow> int \<Rightarrow> exn + int" where
  "py_percent downloaded total_size =
     (if total_size = 0 then Inl ZeroDivisionError
      else Inr (sgn (downloaded * 100) * sgn total_size
                * (\<bar>downloaded * 100\<bar> div \<bar>total_size\<bar>)))"

text \<open>
  The loop \<open>for chunk in response.iter_content(1024)\<close> of \<open>download_mod\<close> and of
  \<open>download_fabric_base\<close>: each chunk is written, counted, and the percentage computed.
  The two loops differ only in when they call \<open>set_status_message\<close>.
\<close>

fun write_chunks ::
  "path \<Rightarrow> int \<Rightarrow> int \<Rightarrow> bytes list \<Rightarrow> stream_end \<Rightarrow> world \<Rightarrow> (exn + unit) \<times> world" where
  "write_chunks p total_size downloaded [] en w =
     (case en of Complete \<Rightarrow> (Inr (), w) | Interrupted \<Rightarrow> (Inl RequestException, w))"
| "write_chunks p total_size downloaded (chunk # rest) en w =
     (let w1 = file_write p chunk w;
          downloaded1 = downloaded + int (length chunk)
      in case py_percent downloaded1 total_size of
           Inl e \<Rightarrow> (Inl e, w1)
         | Inr percent \<Rightarrow> write_chunks p total_size downloaded1 rest en w1)"

subsection \<open>ModManager\<close>

text \<open>
  \<open>download_mod\<close>: the request, and for status 200 the streaming into
  \<open>mods_directory / mod_name\<close>. Only a \<open>RequestException\<close> is caught.
\<close>

definition download_mod :: "env \<Rightarrow> string \<Rightarrow> string \<Rightarrow> path \<Rightarrow> world \<Rightarrow> (exn + unit) \<times> world" where
  "download_mod E mod_name server_name mods_directory w =
     (let local_path = mods_directory @ [mod_name];
          w0 = emit (Get (Download_mod server_name mod_name)) w
      in case mod_file E server_name mod_name of
           Stream_error \<Rightarrow> (Inr (), w0)
         | Stream st cl chs en \<Rightarrow>
             if st = 200 then
               (case open_wb local_path w0 of
                  (Inl e, w1) \<Rightarrow> (if is_RequestException e then (Inr (), w1) else (Inl e, w1))
                | (Inr u, w1) \<Rightarrow>
                    (case write_chunks local_path (total_size_of cl) 0 chs en w1 of
                       (Inl e, w2) \<Rightarrow>
                         (if is_RequestException e then (Inr (), w2) else (Inl e, w2))
                     | (Inr u, w2) \<Rightarrow> (Inr (), w2)))
             else (Inr (), w0))"

text \<open>
  \<open>get_remote_mods_dict\<close>: the parsed body for status 200, Python's \<open>None\<close> for any
  other status; an exception of \<open>requests.get\<close> or of \<open>response.json()\<close> is not caught.
\<close>

definition get_remote_mods_dict :: "env \<Rightarrow> string \<Rightarrow> world \<Rightarrow> (exn + pydict option) \<times> world" where
  "get_remote_mods_dict E server_name w =
     (let w0 = emit (Get (List_mod server_name)) w
      in case list_mod E server_name of
           Json_error \<Rightarrow> (Inl RequestException, w0)
         | Json st body \<Rightarrow>
             if st = 200 then
               (case body of
                  Json_object items \<Rightarrow> (Inr (Some (json_loads items)), w0)
                | Not_json \<Rightarrow> (Inl JSONDecodeError, w0))
             else (Inr None, w0))"

text \<open>
  \<open>get_local_mods_dict\<close>: every regular file of the directory is opened and hashed;
  opening an unreadable file raises.
\<close>

fun hash_files :: "(bytes \<Rightarrow> string) \<Rightarrow> (string \<times> node) list \<Rightarrow> pydict \<Rightarrow> exn + pydict" where
  "hash_files H [] hashes = Inr hashes"
| "hash_files H ((name, Dir) # rest) hashes = hash_files H rest hashes"
| "hash_files H ((name, File r c) # rest) hashes =
     (if r then hash_files H rest (AList.update name (H c) hashes) else Inl PermissionError)"

definition get_local_mods_dict :: "env \<Rightarrow> path \<Rightarrow> world \<Rightarrow> exn + pydict" where
  "get_local_mods_dict E mods_directory w =
     (case iterdir mods_directory (files w) of
        Inl e \<Rightarrow> Inl e
      | Inr entries \<Rightarrow> hash_files (sha256_hexdigest E) entries [])"

text \<open>
  The first loop of \<open>check_mods\<close>, over \<open>list(local_mods.keys())\<close>. The test
  \<open>local_mod not in remote_mods\<close> raises \<open>TypeError\<close> when \<open>remote_mods\<close> is \<open>None\<close>.
\<close>

fun delete_stale :: "path \<Rightarrow> pydict option \<Rightarrow> string list \<Rightarrow> world \<Rightarrow> (exn + unit) \<times> world" where
  "delete_stale mods_directory remote_mods [] w = (Inr (), w)"
| "delete_stale mods_directory remote_mods (local_mod # rest) w =
     (case remote_mods of
        None \<Rightarrow> (Inl TypeError, w)
      | Some R \<Rightarrow>
          if map_of R local_mod = None then
            (case os_remove (mods_directory @ [local_mod]) w of
               (Inl e, w1) \<Rightarrow> (Inl e, w1)
             | (Inr u, w1) \<Rightarrow> delete_stale mods_directory remote_mods rest w1)
          else delete_stale mods_directory remote_mods rest w)"

text \<open>The second loop of \<open>check_mods\<close>, over \<open>remote_mods.items()\<close>.\<close>

fun download_changed ::
  "env \<Rightarrow> string \<Rightarrow> path \<Rightarrow> pydict \<Rightarrow> (string \<times> string) list \<Rightarrow> world \<Rightarrow> (exn + unit) \<times> world" where
  "download_changed E server_name mods_directory local_mods [] w = (Inr (), w)"
| "download_changed E server_name mods_directory local_mods ((remote_mod, remote_hash) # rest) w =
     (if map_of local_mods remote_mod \<noteq> Some remote_hash then
        (case download_mod E remote_mod server_name mods_directory w of
           (Inl e, w1) \<Rightarrow> (Inl e, w1)
         | (Inr u, w1) \<Rightarrow> download_changed E server_name mods_directory local_mods rest w1)
      else download_changed E server_name mods_directory local_mods rest w)"

text \<open>
  The two loops together (lines 180 to 197). \<open>remote_mods.items()\<close> raises
  \<open>AttributeError\<close> when \<open>remote_mods\<close> is \<open>None\<close>.
\<close>

definition reconcile ::
  "env \<Rightarrow> string \<Rightarrow> path \<Rightarrow> pydict option \<Rightarrow> pydict \<Rightarrow> world \<Rightarrow> (exn + unit) \<times> world" where
  "reconcile E server_name mods_directory remote_mods local_mods w =
     (case delete_stale mods_directory remote_mods (map fst local_mods) w of
        (Inl e, w1) \<Rightarrow> (Inl e, w1)
      | (Inr u, w1) \<Rightarrow>
          (case remote_mods of
             None \<Rightarrow> (Inl AttributeError, w1)
           | Some R \<Rightarrow> download_changed E server_name mods_directory local_mods R w1))"

definition check_mods :: "env \<Rightarrow> string \<Rightarrow> world \<Rightarrow> (exn + unit) \<times> world" where
  "check_mods E server_name w =
     (let mods_directory = mods_directory_of server_name
      in case os_makedirs mods_directory w of
           (Inl e, w1) \<Rightarrow> (Inl e, w1)
         | (Inr u, w1) \<Rightarrow>
             (case get_remote_mods_dict E server_name w1 of
                (Inl e, w2) \<Rightarrow> (Inl e, w2)
              | (Inr remote_mods, w2) \<Rightarrow>
                  (case get_local_mods_dict E mods_directory w2 of
                     Inl e \<Rightarrow> (Inl e, w2)
                   | Inr local_mods \<Rightarrow>
                       reconcile E server_name mods_directory remote_mods local_mods w2)))"

subsection \<open>VersionManager\<close>

text \<open>
  The end of \<open>download_fabric_base\<close> (lines 250 to 262): the archive is unpacked into the
  build's directory and removed. Each of the two steps sits in its own
  \<open>try ... except Exception\<close> that only logs.
\<close>

definition install_archive :: "env \<Rightarrow> path \<Rightarrow> path \<Rightarrow> world \<Rightarrow> (exn + unit) \<times> world" where
  "install_archive E local_zip_path build_path w =
     (let w1 = w\<lparr>files := snd (zip_extractall E local_zip_path build_path (files w))\<rparr>
      in case os_remove local_zip_path w1 of
           (Inl e, w2) \<Rightarrow> (Inr (), w2)
         | (Inr u, w2) \<Rightarrow> (Inr (), w2))"

text \<open>
  \<open>download_fabric_base\<close>: nothing is caught around the request and the streaming, so a
  transport error leaves the function as an exception; any other status than 200 is logged
  and the function returns.
\<close>

definition download_fabric_base :: "env \<Rightarrow> string \<Rightarrow> world \<Rightarrow> (exn + unit) \<times> world" where
  "download_fabric_base E server_name w =
     (let build_path = build_path_of server_name;
          local_zip_path = local_zip_path_of server_name
      in case os_makedirs build_path w of
           (Inl e, w1) \<Rightarrow> (Inl e, w1)
         | (Inr u, w1) \<Rightarrow>
             (let w2 = emit (Get (Download_fabric server_name)) w1
              in case fabric_archive E server_name of
                   Stream_error \<Rightarrow> (Inl RequestException, w2)
                 | Stream st cl chs en \<Rightarrow>
                     if st = 200 then
                       (case open_wb local_zip_path w2 of
                          (Inl e, w3) \<Rightarrow> (Inl e, w3)
                        | (Inr u, w3) \<Rightarrow>
                            (case write_chunks local_zip_path (total_size_of cl) 0 chs en w3 of
                               (Inl e, w4) \<Rightarrow> (Inl e, w4)
                             | (Inr u, w4) \<Rightarrow> install_archive E local_zip_path build_path w4))
                     else (Inr (), w2)))"

text \<open>The search loop of \<open>check_fabric_version\<close>, with its \<open>break\<close>.\<close>

fun version_found :: "installed_version list \<Rightarrow> string \<Rightarrow> bool" where
  "version_found [] required_version = False"
| "version_found (version # rest) required_version =
     (if version_id version = required_version then True
      else version_found rest required_version)"

definition check_fabric_version :: "env \<Rightarrow> string \<Rightarrow> string \<Rightarrow> world \<Rightarrow> (exn + unit) \<times> world" where
  "check_fabric_version E server_name required_version w =
     (let installed_versions = get_installed_versions E (files w) (build_path_of server_name);
          found = version_found installed_versions required_version
      in if \<not> found then download_fabric_base E server_name w else (Inr (), w))"

text \<open>\<open>delete_build\<close>: whatever \<open>shutil.rmtree\<close> raises is caught and logged.\<close>

definition delete_build :: "string \<Rightarrow> world \<Rightarrow> (exn + unit) \<times> world" where
  "delete_build server_name w =
     (case shutil_rmtree (build_path_of server_name) w of
        (Inl e, w1) \<Rightarrow> (Inr (), w1)
      | (Inr u, w1) \<Rightarrow> (Inr (), w1))"

subsection \<open>Launcher\<close>

text \<open>
  The first two steps of \<open>run\<close> in \<open>play_game\<close>, after \<open>on_game_start\<close> (which only
  drives the window): the version check, then the mods. The start of the game follows them
  and is not modelled. \<open>run\<close> is the body of a thread of its own, so an exception that
  leaves it ends the run and nothing else.
\<close>

definition play_game_run :: "env \<Rightarrow> string \<Rightarrow> string \<Rightarrow> world \<Rightarrow> (exn + unit) \<times> world" where
  "play_game_run E server_name required_version w =
     (case check_fabric_version E server_name required_version w of
        (Inl e, w1) \<Rightarrow> (Inl e, w1)
      | (Inr u, w1) \<Rightarrow> check_mods E server_name w1)"

subsection \<open>Reading the log\<close>




fun is_mods_event :: "string \<Rightarrow> event \<Rightarrow> bool" where
  "is_mods_event s (Get (List_mod s')) = True"
| "is_mods_event s (Get (Download_mod s' k)) = True"
| "is_mods_event s (Get (Download_fabric s')) = False"
| "is_mods_event s (Remove p) = prefix (mods_directory_of s) p"
| "is_mods_event s (Rmtree p) = False"

subsection \<open>Kinds of responses\<close>

text \<open>
  A download that fails before any byte of the body arrives: \<open>requests.get\<close> raises, or
  the status is not 200.
\<close>

definition failed_before_body :: "stream_response \<Rightarrow> bool" where
  "failed_before_body r = (case r of Stream_error \<Rightarrow> True | Stream st cl chs en \<Rightarrow> st \<noteq> 200)"

text \<open>
  A failed fetch of the manifest: \<open>requests.get\<close> raises, or the status is not 200.
\<close>

definition fetch_failed :: "json_response \<Rightarrow> bool" where
  "fetch_failed r = (case r of Json_error \<Rightarrow> True | Json st body \<Rightarrow> st \<noteq> 200)"



text \<open>
  The outcome of a pass that ends before its loops: an exception, after the directory
  step and at most the request for the manifest.
\<close>

definition stopped_early :: "string \<Rightarrow> world \<Rightarrow> (exn + unit) \<times> world \<Rightarrow> bool" where
  "stopped_early s w res =
     (\<exists>e. fst res = Inl e
        \<and> (snd res = snd (os_makedirs (mods_directory_of s) w)
           \<or> snd res = emit (Get (List_mod s)) (snd (os_makedirs (mods_directory_of s) w))))"

subsection \<open>Example runs\<close>

text \<open>
  The scenario of the specification: the mods directory of build \<open>s\<close> holds \<open>a.jar\<close> and
  \<open>b.jar\<close>, the manifest lists \<open>b.jar\<close> and \<open>c.jar\<close>. The digest of a file is taken to
  be its content, so that the files can be written down with their digests. The other
  environments and worlds are variations of it.
\<close>

definition example_env :: env where
  "example_env =
     \<lparr>list_mod = (\<lambda>s. Json 200 (Json_object [(''b.jar'', ''h2''), (''c.jar'', ''h3'')])),
      mod_file = (\<lambda>s m. Stream 200 (Some 2) [''h3''] Complete),
      fabric_archive = (\<lambda>s. Stream 200 (Some 4) [''PK'', ''zz''] Complete),
      sha256_hexdigest = (\<lambda>b. b),
      get_installed_versions =
        (\<lambda>fs p. [\<lparr>version_id = ''1.20.1'', version_type = ''release''\<rparr>,
                 \<lparr>version_id = ''fabric-loader-0.15.11-1.20.1'', version_type = ''release''\<rparr>]),
      zip_extractall = (\<lambda>z d fs. (Inl BadZipFile, fs))\<rparr>"

definition example_world :: world where
  "example_world =
     \<lparr>files = [([''builds''], Dir), ([''builds'', ''s''], Dir),
               ([''builds'', ''s'', ''mods''], Dir),
               ([''builds'', ''s'', ''mods'', ''a.jar''], File True ''h1''),
               ([''builds'', ''s'', ''mods'', ''b.jar''], File True ''h2'')],
      events = []\<rparr>"





definition interrupted_env :: env where
  "interrupted_env = example_env\<lparr>mod_file := (\<lambda>s m. Stream 200 (Some 4) [''ne''] Interrupted)\<rparr>"

definition not_found_env :: env where
  "not_found_env = example_env\<lparr>mod_file := (\<lambda>s m. Stream 404 None [] Complete),
                               fabric_archive := (\<lambda>s. Stream 404 None [] Complete)\<rparr>"

definition offline_env :: env where
  "offline_env = example_env\<lparr>fabric_archive := (\<lambda>s. Stream_error)\<rparr>"


definition unavailable_env :: env where
  "unavailable_env = example_env\<lparr>list_mod := (\<lambda>s. Json 503 Not_json)\<rparr>"


definition unreadable_world :: world where
  "unreadable_world =
     \<lparr>files = [([''builds''], Dir), ([''builds'', ''s''], Dir),
               ([''builds'', ''s'', ''mods''], Dir),
               ([''builds'', ''s'', ''mods'', ''a.jar''], File True ''h1''),
               ([''builds'', ''s'', ''mods'', ''bad.jar''], File False ''xx''),
               ([''builds'', ''s'', ''mods'', ''b.jar''], File True ''h2'')],
      events = []\<rparr>"

definition fresh_world :: world where
  "fresh_world = \<lparr>files = [([''builds''], Dir)], events = []\<rparr>"

definition archive_world :: world where
  "archive_world =
     \<lparr>files = [([''builds''], Dir), ([''builds'', ''s''], Dir),
               ([''builds'', ''s'', ''base_fabric.zip''], File True ''PKzz'')],
      events = []\<rparr>"

section \<open>Properties of the file operations\<close>

lemma files_emit [simp]: "files (emit e w) = files w"
  by (simp add: emit_def)

lemma events_emit [simp]: "events (emit e w) = events w @ [e]"
  by (simp add: emit_def)

lemma events_since_append: "events w' = events w @ evs \<Longrightarrow> events_since w w' = evs"
  by (simp add: events_since_def)

lemma events_since_self [simp]: "events_since w w = []"
  by (simp add: events_since_def)

lemma events_since_emit:
  "events w1 = events w \<Longrightarrow> events_since w (emit e w1) = [e]"
  by (simp add: events_since_def)

subsection \<open>Removing\<close>




lemma os_remove_not_file: "\<not> is_file (files (snd (os_remove p w))) p"
  by (auto simp: os_remove_def is_file_def AList.delete_conv' split: option.splits node.splits)

lemma os_remove_events:
  "events (snd (os_remove p w)) = events w \<or> events (snd (os_remove p w)) = events w @ [Remove p]"
  by (auto simp: os_remove_def split: option.splits node.splits)

subsection \<open>Creating directories\<close>

lemma update_absent: "map_of fs k = None \<Longrightarrow> AList.update k v fs = fs @ [(k, v)]"
  by (induction fs) (auto split: if_splits)

lemma makedirs_from_keeps:
  "map_of fs q \<noteq> None \<Longrightarrow> map_of (snd (makedirs_from base cs fs)) q = map_of fs q"
proof (induction cs arbitrary: base fs)
  case Nil
  then show ?case by simp
next
  case (Cons c cs)
  show ?case
  proof (cases "map_of fs (base @ [c])")
    case None
    with Cons.prems have ne: "q \<noteq> base @ [c]" by auto
    then have "map_of (AList.update (base @ [c]) Dir fs) q = map_of fs q"
      by (simp add: AList.update_conv')
    with Cons.IH [of "AList.update (base @ [c]) Dir fs" "base @ [c]"] Cons.prems None
    show ?thesis by simp
  next
    case (Some n)
    with Cons show ?thesis by (cases n) auto
  qed
qed

lemma makedirs_from_frame:
  "\<not> prefix q (base @ cs) \<Longrightarrow> map_of (snd (makedirs_from base cs fs)) q = map_of fs q"
proof (induction cs arbitrary: base fs)
  case Nil
  then show ?case by simp
next
  case (Cons c cs)
  from Cons.prems have ne: "q \<noteq> base @ [c]" by (auto simp: prefix_def)
  from Cons.prems have np: "\<not> prefix q ((base @ [c]) @ cs)" by simp
  show ?case
  proof (cases "map_of fs (base @ [c])")
    case None
    from ne have "map_of (AList.update (base @ [c]) Dir fs) q = map_of fs q"
      by (simp add: AList.update_conv')
    with Cons.IH [OF np, of "AList.update (base @ [c]) Dir fs"] None
    show ?thesis by simp
  next
    case (Some n)
    with Cons.IH [OF np, of fs] show ?thesis by (cases n) auto
  qed
qed

lemma makedirs_from_superset: "set fs \<subseteq> set (snd (makedirs_from base cs fs))"
proof (induction cs arbitrary: base fs)
  case Nil
  then show ?case by simp
next
  case (Cons c cs)
  show ?case
  proof (cases "map_of fs (base @ [c])")
    case None
    then have "set fs \<subseteq> set (AList.update (base @ [c]) Dir fs)"
      by (auto simp: update_absent)
    with Cons.IH [of "AList.update (base @ [c]) Dir fs" "base @ [c]"] None
    show ?thesis by auto
  next
    case (Some n)
    with Cons.IH [of fs "base @ [c]"] show ?thesis by (cases n) auto
  qed
qed



lemma makedirs_from_is_dir:
  "fst (makedirs_from base cs fs) = Inr () \<Longrightarrow> is_dir fs base \<Longrightarrow>
     is_dir (snd (makedirs_from base cs fs)) (base @ cs)"
proof (induction cs arbitrary: base fs)
  case Nil
  then show ?case by simp
next
  case (Cons c cs)
  show ?case
  proof (cases "map_of fs (base @ [c])")
    case None
    have "is_dir (AList.update (base @ [c]) Dir fs) (base @ [c])"
      by (simp add: is_dir_def AList.update_conv')
    with Cons.IH [of "base @ [c]" "AList.update (base @ [c]) Dir fs"] Cons.prems None
    show ?thesis by simp
  next
    case (Some n)
    with Cons.IH [of "base @ [c]" fs] Cons.prems show ?thesis
      by (cases n) (auto simp: is_dir_def)
  qed
qed

lemma makedirs_from_existing:
  "is_dir fs (base @ cs) \<Longrightarrow> cs \<noteq> [] \<Longrightarrow> map_of (snd (makedirs_from base cs fs)) (base @ cs) = Some Dir"
  using makedirs_from_keeps [of fs "base @ cs" base cs] by (auto simp: is_dir_def)


lemma os_makedirs_events [simp]: "events (snd (os_makedirs p w)) = events w"
  by (simp add: os_makedirs_def split: prod.splits)

lemma os_makedirs_files: "files (snd (os_makedirs p w)) = snd (makedirs_from [] p (files w))"
  by (simp add: os_makedirs_def split: prod.splits)

lemma os_makedirs_fst: "fst (os_makedirs p w) = fst (makedirs_from [] p (files w))"
  by (simp add: os_makedirs_def split: prod.splits)

lemma os_makedirs_keeps:
  "map_of (files w) q = Some n \<Longrightarrow> map_of (files (snd (os_makedirs p w))) q = Some n"
  using makedirs_from_keeps [of "files w" q "[]" p] by (simp add: os_makedirs_files)


subsection \<open>Listing and hashing\<close>

lemma iterdir_mem:
  assumes "is_dir fs d" and "(d @ [name], n) \<in> set fs"
  shows "\<exists>es. iterdir d fs = Inr es \<and> (name, n) \<in> set es"
proof -
  have "(name, n) \<in> (\<lambda>(p, n). (last p, n)) ` {x \<in> set fs. case x of (p, n) \<Rightarrow> p \<noteq> [] \<and> butlast p = d}"
    using assms(2) by force
  with assms(1) show ?thesis by (simp add: iterdir_def)
qed




lemma hash_files_unreadable:
  "(name, File False c) \<in> set es \<Longrightarrow> hash_files H es acc = Inl PermissionError"
proof (induction es arbitrary: acc)
  case Nil
  then show ?case by simp
next
  case (Cons e es)
  obtain name' n where e: "e = (name', n)" by (cases e)
  show ?case
  proof (cases n)
    case Dir
    with Cons e show ?thesis by auto
  next
    case (File r b)
    with Cons e show ?thesis by (cases r) auto
  qed
qed

lemma get_local_mods_dict_unreadable:
  assumes "is_dir (files w) d" and "(d @ [name], File False c) \<in> set (files w)"
  shows "get_local_mods_dict E d w = Inl PermissionError"
proof -
  from iterdir_mem [OF assms] obtain es where
    "iterdir d (files w) = Inr es" and "(name, File False c) \<in> set es" by blast
  then show ?thesis by (simp add: get_local_mods_dict_def hash_files_unreadable)
qed

subsection \<open>Writing\<close>

lemma open_wb_events: "events (snd (open_wb p w)) = events w"
  by (auto simp: open_wb_def split: option.splits node.splits)


lemma open_wb_Inl: "open_wb p w = (Inl e, w') \<Longrightarrow> w' = w"
  by (auto simp: open_wb_def split: option.splits node.splits if_splits)

lemma open_wb_Inr:
  "open_wb p w = (Inr u, w') \<Longrightarrow>
     map_of (files w') p =
       Some (File (case map_of (files w) p of Some (File r c) \<Rightarrow> r | _ \<Rightarrow> True) [])"
  by (auto simp: open_wb_def AList.update_conv' split: option.splits node.splits if_splits)

lemma open_wb_ok:
  "is_dir (files w) d \<Longrightarrow> map_of (files w) (d @ [m]) \<noteq> Some Dir \<Longrightarrow>
     fst (open_wb (d @ [m]) w) = Inr ()"
  by (auto simp: open_wb_def split: option.splits node.splits)


lemma file_write_events [simp]: "events (file_write p chunk w) = events w"
  by (auto simp: file_write_def split: option.splits node.splits)


lemma file_write_file:
  "map_of (files w) p = Some (File r c) \<Longrightarrow>
     map_of (files (file_write p chunk w)) p = Some (File r (c @ chunk))"
  by (simp add: file_write_def AList.update_conv')


lemma write_chunks_events: "events (snd (write_chunks p t n chs en w)) = events w"
  by (induction chs arbitrary: n w)
     (auto simp: Let_def split: stream_end.splits sum.splits)



lemma py_percent_nonzero: "t \<noteq> 0 \<Longrightarrow> \<exists>x. py_percent n t = Inr x"
  by (simp add: py_percent_def)

lemma write_chunks_nonzero:
  "t \<noteq> 0 \<or> chs = [] \<Longrightarrow>
     fst (write_chunks p t n chs en w)
       = (case en of Complete \<Rightarrow> Inr () | Interrupted \<Rightarrow> Inl RequestException)"
  by (induction chs arbitrary: n w)
     (auto simp: Let_def py_percent_def split: stream_end.splits)

lemma write_chunks_content:
  "t \<noteq> 0 \<Longrightarrow> map_of (files w) p = Some (File r c) \<Longrightarrow>
     map_of (files (snd (write_chunks p t n chs en w))) p = Some (File r (c @ concat chs))"
proof (induction chs arbitrary: n w c)
  case Nil
  then show ?case by (simp split: stream_end.splits)
next
  case (Cons chunk rest)
  from Cons.prems have "map_of (files (file_write p chunk w)) p = Some (File r (c @ chunk))"
    by (simp add: file_write_file)
  from Cons.IH [OF Cons.prems(1) this] Cons.prems(1) show ?case
    by (simp add: Let_def py_percent_def)
qed

lemma write_chunks_zero:
  "write_chunks p 0 n (chunk # rest) en w = (Inl ZeroDivisionError, file_write p chunk w)"
  by (simp add: Let_def py_percent_def)

subsection \<open>Dictionaries\<close>




lemma json_loads_aux_distinct:
  "distinct (map fst acc) \<Longrightarrow>
     distinct (map fst (foldl (\<lambda>d (k, v). AList.update k v d) acc items))"
  by (induction items arbitrary: acc) (auto simp: AList.distinct_update split: prod.splits)

lemma json_loads_distinct: "distinct (map fst (json_loads items))"
  by (simp add: json_loads_def json_loads_aux_distinct)

section \<open>Downloads\<close>





lemma download_mod_failed_before_body:
  "failed_before_body (mod_file E s m) \<Longrightarrow>
     download_mod E m s d w = (Inr (), emit (Get (Download_mod s m)) w)"
  by (auto simp: failed_before_body_def download_mod_def split: stream_response.splits)

lemma not_prefix_zip: "\<not> prefix (local_zip_path_of s) ([] @ build_path_of s)"
  by (simp add: local_zip_path_of_def)

lemma download_fabric_failed_before_body:
  assumes "failed_before_body (fabric_archive E s)"
  shows "map_of (files (snd (download_fabric_base E s w))) (local_zip_path_of s)
           = map_of (files w) (local_zip_path_of s)"
proof -
  obtain r1 w1 where mk: "os_makedirs (build_path_of s) w = (r1, w1)"
    by (cases "os_makedirs (build_path_of s) w")
  have keep: "map_of (files w1) (local_zip_path_of s) = map_of (files w) (local_zip_path_of s)"
    using os_makedirs_files [of "build_path_of s" w] mk
      makedirs_from_frame [OF not_prefix_zip, of s "files w"] by simp
  show ?thesis
    using assms mk keep
    by (cases r1)
       (auto simp: failed_before_body_def download_fabric_base_def Let_def
             split: stream_response.splits)
qed

lemma download_mod_interrupted:
  assumes r: "mod_file E s m = Stream 200 cl chs Interrupted"
    and t: "total_size_of cl \<noteq> 0"
    and d: "is_dir (files w) d"
    and f: "map_of (files w) (d @ [m]) \<noteq> Some Dir"
  shows "fst (download_mod E m s d w) = Inr ()
    \<and> (\<exists>r. map_of (files (snd (download_mod E m s d w))) (d @ [m]) = Some (File r (concat chs)))"
proof -
  let ?w0 = "emit (Get (Download_mod s m)) w"
  let ?p = "d @ [m]"
  from d f have "fst (open_wb ?p ?w0) = Inr ()" by (simp add: open_wb_ok)
  then obtain w1 where o: "open_wb ?p ?w0 = (Inr (), w1)"
    by (cases "open_wb ?p ?w0") auto
  from open_wb_Inr [OF o] obtain r0 where f1: "map_of (files w1) ?p = Some (File r0 [])" by blast
  obtain r2 w2 where wr: "write_chunks ?p (total_size_of cl) 0 chs Interrupted w1 = (r2, w2)"
    by (cases "write_chunks ?p (total_size_of cl) 0 chs Interrupted w1")
  have r2: "r2 = Inl RequestException"
    using write_chunks_nonzero [of "total_size_of cl" chs ?p 0 Interrupted w1] t wr by simp
  have c2: "map_of (files w2) ?p = Some (File r0 (concat chs))"
    using write_chunks_content [OF t f1, of 0 chs Interrupted] wr by simp
  show ?thesis
    using r o wr r2 c2 by (simp add: download_mod_def is_RequestException_def)
qed

text \<open>
  C4. The claim is that a download whose response has no \<open>Content-Length\<close> completes
  without error. The code does not: the missing header is read as the total 0, and the
  percentage is computed by dividing by it. The loop raises \<open>ZeroDivisionError\<close> on the
  first chunk, whatever has been counted so far, and \<open>download_mod\<close>, which catches
  \<open>RequestException\<close> only, lets it through.
\<close>

theorem download_without_content_length_raises:
  "write_chunks p (total_size_of None) n (chunk # rest) en w
     = (Inl ZeroDivisionError, file_write p chunk w)
   \<and> (mod_file E server_name mod_name = Stream 200 None (chunk # rest) en
        \<and> is_dir (files w) mods_directory
        \<and> map_of (files w) (mods_directory @ [mod_name]) \<noteq> Some Dir
      \<longrightarrow> fst (download_mod E mod_name server_name mods_directory w) = Inl ZeroDivisionError)"
proof -
  have loop: "write_chunks p (total_size_of None) n (chunk # rest) en w
     = (Inl ZeroDivisionError, file_write p chunk w)" for p n w
    by (simp add: total_size_of_def Let_def py_percent_def)
  have "fst (download_mod E mod_name server_name mods_directory w) = Inl ZeroDivisionError"
    if r: "mod_file E server_name mod_name = Stream 200 None (chunk # rest) en"
      and d: "is_dir (files w) mods_directory"
      and f: "map_of (files w) (mods_directory @ [mod_name]) \<noteq> Some Dir"
  proof -
    let ?w0 = "emit (Get (Download_mod server_name mod_name)) w"
    from d f have "fst (open_wb (mods_directory @ [mod_name]) ?w0) = Inr ()"
      by (simp add: open_wb_ok)
    then obtain w1 where o: "open_wb (mods_directory @ [mod_name]) ?w0 = (Inr (), w1)"
      by (cases "open_wb (mods_directory @ [mod_name]) ?w0") auto
    show ?thesis
      using r o loop [of "mods_directory @ [mod_name]" 0 w1]
      by (simp add: download_mod_def is_RequestException_def)
  qed
  with loop show ?thesis by blast
qed

theorem download_without_content_length_raises_witness:
  "mod_file (example_env\<lparr>mod_file := (\<lambda>s m. Stream 200 None [''h3''] Complete)\<rparr>) ''s'' ''c.jar''
     = Stream 200 None [''h3''] Complete
   \<and> is_dir (files example_world) (mods_directory_of ''s'')
   \<and> map_of (files example_world) (mods_directory_of ''s'' @ [''c.jar'']) \<noteq> Some Dir
   \<and> fst (download_mod (example_env\<lparr>mod_file := (\<lambda>s m. Stream 200 None [''h3''] Complete)\<rparr>)
          ''c.jar'' ''s'' (mods_directory_of ''s'') example_world) = Inl ZeroDivisionError"
  using download_without_content_length_raises
    [where chunk = "''h3''" and rest = "[]" and en = Complete and w = example_world
       and E = "example_env\<lparr>mod_file := (\<lambda>s m. Stream 200 None [''h3''] Complete)\<rparr>"
       and server_name = "''s''" and mod_name = "''c.jar''"
       and mods_directory = "mods_directory_of ''s''"]
  by (simp add: example_env_def example_world_def mods_directory_of_def builds_path_def is_dir_def)

text \<open>
  C2, as amended. A download that fails before the body arrives leaves the files as they
  were: \<open>download_mod\<close> returns with nothing but the request logged, and
  \<open>download_fabric_base\<close> leaves the archive path as it was. A mod download that is
  interrupted in the middle of a body of known size returns normally and leaves, under the
  final name, a file holding exactly the bytes received before the interruption.
\<close>

theorem failed_download_leaves_destination:
  "(failed_before_body (mod_file E server_name mod_name) \<longrightarrow>
      download_mod E mod_name server_name mods_directory w
        = (Inr (), emit (Get (Download_mod server_name mod_name)) w))
   \<and> (failed_before_body (fabric_archive E server_name) \<longrightarrow>
      map_of (files (snd (download_fabric_base E server_name w))) (local_zip_path_of server_name)
        = map_of (files w) (local_zip_path_of server_name))
   \<and> (mod_file E server_name mod_name = Stream 200 cl chs Interrupted
        \<and> total_size_of cl \<noteq> 0
        \<and> is_dir (files w) mods_directory
        \<and> map_of (files w) (mods_directory @ [mod_name]) \<noteq> Some Dir \<longrightarrow>
      fst (download_mod E mod_name server_name mods_directory w) = Inr ()
      \<and> (\<exists>r. map_of (files (snd (download_mod E mod_name server_name mods_directory w)))
                 (mods_directory @ [mod_name]) = Some (File r (concat chs))))"
  using download_mod_failed_before_body [of E server_name mod_name mods_directory w]
    download_fabric_failed_before_body [of E server_name w]
    download_mod_interrupted [of E server_name mod_name cl chs w mods_directory]
  by blast

theorem failed_download_leaves_destination_witness:
  "failed_before_body (mod_file not_found_env ''s'' ''b.jar'')
   \<and> download_mod not_found_env ''b.jar'' ''s'' (mods_directory_of ''s'') example_world
       = (Inr (), emit (Get (Download_mod ''s'' ''b.jar'')) example_world)
   \<and> failed_before_body (fabric_archive not_found_env ''s'')
   \<and> map_of (files (snd (download_fabric_base not_found_env ''s'' example_world)))
        (local_zip_path_of ''s'') = None
   \<and> mod_file interrupted_env ''s'' ''b.jar'' = Stream 200 (Some 4) [''ne''] Interrupted
   \<and> total_size_of (Some 4) \<noteq> 0
   \<and> is_dir (files example_world) (mods_directory_of ''s'')
   \<and> map_of (files example_world) (mods_directory_of ''s'' @ [''b.jar'']) \<noteq> Some Dir
   \<and> fst (download_mod interrupted_env ''b.jar'' ''s'' (mods_directory_of ''s'') example_world) = Inr ()"
  using failed_download_leaves_destination
    [where E = not_found_env and server_name = "''s''" and mod_name = "''b.jar''"
       and mods_directory = "mods_directory_of ''s''" and w = example_world]
   failed_download_leaves_destination
    [where E = interrupted_env and server_name = "''s''" and mod_name = "''b.jar''"
       and mods_directory = "mods_directory_of ''s''" and w = example_world
       and cl = "Some 4" and chs = "[''ne'']"]
  by (simp add: not_found_env_def interrupted_env_def example_env_def example_world_def
      failed_before_body_def mods_directory_of_def builds_path_def is_dir_def total_size_of_def
      local_zip_path_of_def build_path_of_def)

text \<open>
  C2 as stated fails: it asks that an interrupted download leave a file that was there
  before untouched. Here \<open>b.jar\<close> holds \<open>h2\<close>, the stream breaks after the chunk \<open>ne\<close>,
  and \<open>b.jar\<close> holds \<open>ne\<close> afterwards.
\<close>

theorem interrupted_download_counterexample:
  "mod_file interrupted_env ''s'' ''b.jar'' = Stream 200 (Some 4) [''ne''] Interrupted
   \<and> map_of (files example_world) (mods_directory_of ''s'' @ [''b.jar'']) = Some (File True ''h2'')
   \<and> download_mod interrupted_env ''b.jar'' ''s'' (mods_directory_of ''s'') example_world
       = (Inr (), \<lparr>files = [([''builds''], Dir), ([''builds'', ''s''], Dir),
               ([''builds'', ''s'', ''mods''], Dir),
               ([''builds'', ''s'', ''mods'', ''a.jar''], File True ''h1''),
               ([''builds'', ''s'', ''mods'', ''b.jar''], File True ''ne'')],
             events = [Get (Download_mod ''s'' ''b.jar'')]\<rparr>)"
  by (simp add: interrupted_env_def example_env_def example_world_def mods_directory_of_def
      builds_path_def download_mod_def emit_def open_wb_def total_size_of_def file_write_def
      py_percent_def is_RequestException_def)

section \<open>The two loops of check_mods\<close>



lemma delete_stale_None:
  "delete_stale d None ks w = (if ks = [] then (Inr (), w) else (Inl TypeError, w))"
  by (cases ks) simp_all






















lemma hash_files_distinct:
  "hash_files H es acc = Inr L \<Longrightarrow> distinct (map fst acc) \<Longrightarrow> distinct (map fst L)"
proof (induction H es acc rule: hash_files.induct)
  case (1 H hashes)
  then show ?case by simp
next
  case (2 H name rest hashes)
  then show ?case by simp
next
  case (3 H name r c rest hashes)
  then show ?case by (cases r) (simp_all add: AList.distinct_update)
qed

lemma hash_files_keys:
  "hash_files H es acc = Inr L \<Longrightarrow>
     fst ` set L \<subseteq> fst ` set acc \<union> {name. \<exists>r c. (name, File r c) \<in> set es}"
proof (induction H es acc rule: hash_files.induct)
  case (1 H hashes)
  then show ?case by simp
next
  case (2 H name rest hashes)
  then have "fst ` set L \<subseteq> fst ` set hashes \<union> {n. \<exists>r c. (n, File r c) \<in> set rest}"
    by simp
  moreover have "{n. \<exists>r c. (n, File r c) \<in> set ((name, Dir) # rest)}
      = {n. \<exists>r c. (n, File r c) \<in> set rest}" by simp
  ultimately show ?case by simp
next
  case (3 H name r c rest hashes)
  show ?case
  proof (cases r)
    case False
    with 3 show ?thesis by simp
  next
    case True
    have shift: "S \<subseteq> insert n A \<union> F \<Longrightarrow> S \<subseteq> A \<union> insert n F" for S A F and n :: string
      by blast
    from True 3 have "fst ` set L \<subseteq> fst ` set (AList.update name (H c) hashes)
        \<union> {n. \<exists>r c. (n, File r c) \<in> set rest}" by simp
    moreover have "fst ` set (AList.update name (H c) hashes) = insert name (fst ` set hashes)"
      by (simp add: AList.dom_update)
    ultimately have "fst ` set L \<subseteq> insert name (fst ` set hashes)
        \<union> {n. \<exists>r c. (n, File r c) \<in> set rest}" by simp
    then have "fst ` set L \<subseteq> fst ` set hashes
        \<union> insert name {n. \<exists>r c. (n, File r c) \<in> set rest}" by (rule shift)
    moreover have "{n. \<exists>r' c'. (n, File r' c') \<in> set ((name, File r c) # rest)}
        = insert name {n. \<exists>r c. (n, File r c) \<in> set rest}" by auto
    ultimately show ?thesis by simp
  qed
qed

text \<open>
  The inventory that \<open>get_local_mods_dict\<close> returns has unique names, each of them a
  regular file of the directory.
\<close>

lemma get_local_mods_dict_inventory:
  assumes "get_local_mods_dict E d w = Inr L" and "distinct (map fst (files w))"
  shows "distinct (map fst L) \<and> (\<forall>k \<in> fst ` set L. is_file (files w) (d @ [k]))"
proof -
  from assms(1) obtain es where it: "iterdir d (files w) = Inr es"
    and hf: "hash_files (sha256_hexdigest E) es [] = Inr L"
    by (auto simp: get_local_mods_dict_def split: sum.splits)
  from it have es: "es = map (\<lambda>(p, n). (last p, n))
      (filter (\<lambda>(p, n). p \<noteq> [] \<and> butlast p = d) (files w))"
    by (auto simp: iterdir_def split: if_splits)
  have "is_file (files w) (d @ [k])" if "k \<in> fst ` set L" for k
  proof -
    from hash_files_keys [OF hf] that have "k \<in> {n. \<exists>r c. (n, File r c) \<in> set es}"
      by auto
    then obtain r c where "(k, File r c) \<in> set es" by blast
    then have "(k, File r c) \<in> (\<lambda>(p, n). (last p, n))
        ` set (filter (\<lambda>(p, n). p \<noteq> [] \<and> butlast p = d) (files w))"
      by (simp only: es set_map)
    then obtain x where x: "x \<in> set (filter (\<lambda>(p, n). p \<noteq> [] \<and> butlast p = d) (files w))"
      and xe: "(k, File r c) = (\<lambda>(p, n). (last p, n)) x" by (rule imageE)
    obtain p n where pn: "x = (p, n)" by (cases x)
    from x xe pn have p: "(p, File r c) \<in> set (files w)" "p \<noteq> []" "butlast p = d" "last p = k"
      by simp_all
    from p(2) have "butlast p @ [last p] = p" by (rule append_butlast_last_id)
    with p(3,4) have "p = d @ [k]" by simp
    with p(1) assms(2) have "map_of (files w) (d @ [k]) = Some (File r c)" by simp
    then show ?thesis by (simp add: is_file_def)
  qed
  with hash_files_distinct [OF hf] show ?thesis by simp
qed




section \<open>A pass that stops before its loops\<close>

lemma get_remote_mods_dict_snd:
  "snd (get_remote_mods_dict E s w) = emit (Get (List_mod s)) w"
  by (simp add: get_remote_mods_dict_def Let_def split: json_response.splits json_body.splits)

text \<open>
  A pass that returns normally has run the two loops on the parsed manifest, whose keys
  are unique, and on the inventory of the mods directory.
\<close>

lemma check_mods_runs_reconcile:
  assumes "check_mods E s w = (Inr (), w')"
  shows "\<exists>items L. list_mod E s = Json 200 (Json_object items)
     \<and> distinct (map fst (json_loads items))
     \<and> get_local_mods_dict E (mods_directory_of s)
          (emit (Get (List_mod s)) (snd (os_makedirs (mods_directory_of s) w))) = Inr L
     \<and> reconcile E s (mods_directory_of s) (Some (json_loads items)) L
          (emit (Get (List_mod s)) (snd (os_makedirs (mods_directory_of s) w))) = (Inr (), w')"
proof -
  let ?d = "mods_directory_of s"
  obtain r1 w1 where mk: "os_makedirs ?d w = (r1, w1)" by (cases "os_makedirs ?d w")
  let ?w2 = "emit (Get (List_mod s)) w1"
  obtain r2 w2 where g: "get_remote_mods_dict E s w1 = (r2, w2)"
    by (cases "get_remote_mods_dict E s w1")
  have w2: "w2 = ?w2" using g get_remote_mods_dict_snd [of E s w1] by simp
  from assms mk obtain u where r1: "r1 = Inr u" by (cases r1) (auto simp: check_mods_def)
  from assms mk r1 g obtain R where r2: "r2 = Inr R" by (cases r2) (auto simp: check_mods_def)
  from assms mk r1 g r2 w2 obtain L where loc: "get_local_mods_dict E ?d ?w2 = Inr L"
    by (cases "get_local_mods_dict E ?d ?w2") (auto simp: check_mods_def)
  from assms mk r1 g r2 w2 loc have rec: "reconcile E s ?d R L ?w2 = (Inr (), w')"
    by (simp add: check_mods_def)
  have "R \<noteq> None"
  proof
    assume "R = None"
    with rec show False
      by (auto simp: reconcile_def delete_stale_None split: if_splits)
  qed
  then obtain items where man: "list_mod E s = Json 200 (Json_object items)"
    and R: "R = Some (json_loads items)"
    using g r2
    by (auto simp: get_remote_mods_dict_def Let_def
        split: json_response.splits json_body.splits if_splits)
  from man R loc rec mk json_loads_distinct [of items] show ?thesis by auto
qed

lemma stopped_earlyD:
  assumes "stopped_early s w res"
  shows "(\<exists>e. fst res = Inl e)
    \<and> set (events_since w (snd res)) \<subseteq> {Get (List_mod s)}
    \<and> (\<forall>q n. map_of (files w) q = Some n \<longrightarrow> map_of (files (snd res)) q = Some n)"
proof -
  let ?w1 = "snd (os_makedirs (mods_directory_of s) w)"
  have ev: "events ?w1 = events w" by simp
  have a: "events_since w ?w1 = []" by (simp add: events_since_def)
  have b: "events_since w (emit (Get (List_mod s)) ?w1) = [Get (List_mod s)]"
    by (rule events_since_emit [OF ev])
  have c: "\<forall>q n. map_of (files w) q = Some n \<longrightarrow> map_of (files ?w1) q = Some n"
    by (simp add: os_makedirs_keeps)
  from assms obtain e where e: "fst res = Inl e"
    and w': "snd res = ?w1 \<or> snd res = emit (Get (List_mod s)) ?w1"
    unfolding stopped_early_def by blast
  from w' show ?thesis
  proof
    assume "snd res = ?w1"
    with e a c show ?thesis by auto
  next
    assume "snd res = emit (Get (List_mod s)) ?w1"
    with e b c show ?thesis by auto
  qed
qed

lemma check_mods_fetch_failed:
  assumes "fetch_failed (list_mod E s)"
  shows "stopped_early s w (check_mods E s w)"
proof -
  let ?d = "mods_directory_of s"
  obtain r1 w1 where mk: "os_makedirs ?d w = (r1, w1)" by (cases "os_makedirs ?d w")
  then have w1: "snd (os_makedirs ?d w) = w1" by simp
  show ?thesis
  proof (cases r1)
    case (Inl e)
    with mk w1 show ?thesis by (simp add: check_mods_def stopped_early_def)
  next
    case (Inr u)
    let ?w2 = "emit (Get (List_mod s)) w1"
    show ?thesis
    proof (cases "list_mod E s")
      case Json_error
      with mk Inr w1 show ?thesis
        by (simp add: check_mods_def stopped_early_def get_remote_mods_dict_def)
    next
      case (Json st body)
      with assms have st: "st \<noteq> 200" by (simp add: fetch_failed_def)
      with Json have g: "get_remote_mods_dict E s w1 = (Inr None, ?w2)"
        by (simp add: get_remote_mods_dict_def)
      show ?thesis
      proof (cases "get_local_mods_dict E ?d ?w2")
        case (Inl e)
        with mk Inr g w1 show ?thesis by (simp add: check_mods_def stopped_early_def)
      next
        case (Inr L)
        with mk \<open>r1 = Inr u\<close> g w1 show ?thesis
          by (simp add: check_mods_def stopped_early_def reconcile_def delete_stale_None)
      qed
    qed
  qed
qed

lemma check_mods_unreadable:
  assumes "(mods_directory_of s @ [name], File False c) \<in> set (files w)"
  shows "stopped_early s w (check_mods E s w)"
proof -
  let ?d = "mods_directory_of s"
  obtain r1 w1 where mk: "os_makedirs ?d w = (r1, w1)" by (cases "os_makedirs ?d w")
  then have w1: "snd (os_makedirs ?d w) = w1" by simp
  show ?thesis
  proof (cases r1)
    case (Inl e)
    with mk w1 show ?thesis by (simp add: check_mods_def stopped_early_def)
  next
    case (Inr u)
    let ?w2 = "emit (Get (List_mod s)) w1"
    from mk Inr have ok: "fst (makedirs_from [] ?d (files w)) = Inr ()"
      using os_makedirs_fst [of ?d w] by simp
    have f1: "files w1 = snd (makedirs_from [] ?d (files w))"
      using os_makedirs_files [of ?d w] mk by simp
    have dir: "is_dir (files ?w2) ?d"
      using makedirs_from_is_dir [OF ok] f1 by (simp add: is_dir_def)
    have mem: "(?d @ [name], File False c) \<in> set (files ?w2)"
      using makedirs_from_superset [of "files w" "[]" ?d] assms f1 by auto
    have loc: "get_local_mods_dict E ?d ?w2 = Inl PermissionError"
      by (rule get_local_mods_dict_unreadable [OF dir mem])
    obtain r2 w2 where g: "get_remote_mods_dict E s w1 = (r2, w2)"
      by (cases "get_remote_mods_dict E s w1")
    have w2: "w2 = ?w2" using g get_remote_mods_dict_snd [of E s w1] by simp
    show ?thesis using mk Inr g w2 loc w1
      by (cases r2) (simp_all add: check_mods_def stopped_early_def)
  qed
qed

text \<open>
  C6, as amended. When a regular file of the mods directory cannot be read,
  \<open>get_local_mods_dict\<close> raises \<open>PermissionError\<close>, and nothing catches it: \<open>check_mods\<close>
  ends with an exception, having logged at most the request for the manifest (no removal,
  no download), and every file is as it was.
\<close>

theorem unreadable_mod_aborts_pass:
  assumes "(mods_directory_of server_name @ [name], File False c) \<in> set (files w)"
  shows "(is_dir (files w) (mods_directory_of server_name) \<longrightarrow>
            get_local_mods_dict E (mods_directory_of server_name) w = Inl PermissionError)
     \<and> (\<exists>e. fst (check_mods E server_name w) = Inl e)
     \<and> set (events_since w (snd (check_mods E server_name w))) \<subseteq> {Get (List_mod server_name)}
     \<and> (\<forall>q n. map_of (files w) q = Some n \<longrightarrow>
           map_of (files (snd (check_mods E server_name w))) q = Some n)"
  using stopped_earlyD [OF check_mods_unreadable [OF assms, of E]]
    get_local_mods_dict_unreadable [OF _ assms, of E]
  by blast

theorem unreadable_mod_aborts_pass_witness:
  "(mods_directory_of ''s'' @ [''bad.jar''], File False ''xx'') \<in> set (files unreadable_world)
   \<and> is_dir (files unreadable_world) (mods_directory_of ''s'')
   \<and> get_local_mods_dict example_env (mods_directory_of ''s'') unreadable_world
       = Inl PermissionError
   \<and> (\<exists>e. fst (check_mods example_env ''s'' unreadable_world) = Inl e)"
proof -
  have h: "(mods_directory_of ''s'' @ [''bad.jar''], File False ''xx'')
      \<in> set (files unreadable_world)"
    by (simp add: unreadable_world_def mods_directory_of_def builds_path_def)
  have d: "is_dir (files unreadable_world) (mods_directory_of ''s'')"
    by (simp add: unreadable_world_def mods_directory_of_def builds_path_def is_dir_def)
  show ?thesis
    using h d unreadable_mod_aborts_pass [OF h, of example_env] by blast
qed

text \<open>
  C6 as stated fails: it asks that the pass go on over the readable files. Here the mods
  directory holds the stale \<open>a.jar\<close>, the unreadable \<open>bad.jar\<close> and \<open>b.jar\<close>; the pass ends
  with \<open>PermissionError\<close> right after the request for the manifest, \<open>a.jar\<close> is not
  removed and \<open>c.jar\<close> is not requested.
\<close>

theorem unreadable_mod_counterexample:
  "check_mods example_env ''s'' unreadable_world
     = (Inl PermissionError, unreadable_world\<lparr>events := [Get (List_mod ''s'')]\<rparr>)"
  by (simp add: check_mods_def example_env_def unreadable_world_def mods_directory_of_def
      builds_path_def os_makedirs_def get_remote_mods_dict_def emit_def json_loads_def
      get_local_mods_dict_def iterdir_def is_dir_def)

lemma get_local_mods_dict_emit [simp]:
  "get_local_mods_dict E d (emit e w) = get_local_mods_dict E d w"
  by (simp add: get_local_mods_dict_def)

lemma get_remote_mods_dict_failed:
  assumes "fetch_failed (list_mod E s)"
  shows "get_remote_mods_dict E s w
     = (if list_mod E s = Json_error then Inl RequestException else Inr None,
        emit (Get (List_mod s)) w)"
  using assms
  by (auto simp: fetch_failed_def get_remote_mods_dict_def Let_def split: json_response.splits)

lemma check_mods_makedirs_fails:
  assumes "fst (os_makedirs (mods_directory_of s) w) = Inl e"
  shows "check_mods E s w = (Inl e, snd (os_makedirs (mods_directory_of s) w))"
proof -
  from assms obtain w1 where "os_makedirs (mods_directory_of s) w = (Inl e, w1)"
    by (cases "os_makedirs (mods_directory_of s) w") auto
  then show ?thesis by (simp add: check_mods_def)
qed

lemma check_mods_fetch_failed_result:
  assumes ff: "fetch_failed (list_mod E s)"
    and mk: "fst (os_makedirs (mods_directory_of s) w) = Inr ()"
  shows "fst (check_mods E s w)
     = (if list_mod E s = Json_error then Inl RequestException
        else case get_local_mods_dict E (mods_directory_of s)
                    (snd (os_makedirs (mods_directory_of s) w)) of
               Inl e \<Rightarrow> Inl e
             | Inr L \<Rightarrow> if L = [] then Inl AttributeError else Inl TypeError)"
proof -
  let ?d = "mods_directory_of s"
  from mk obtain w1 where mk1: "os_makedirs ?d w = (Inr (), w1)"
    by (cases "os_makedirs ?d w") auto
  note g = get_remote_mods_dict_failed [OF ff, of w1]
  show ?thesis
  proof (cases "list_mod E s = Json_error")
    case True
    with mk1 g show ?thesis by (simp add: check_mods_def)
  next
    case False
    show ?thesis
    proof (cases "get_local_mods_dict E ?d w1")
      case (Inl e)
      with False mk1 g show ?thesis by (simp add: check_mods_def)
    next
      case (Inr L)
      with False mk1 g show ?thesis
        by (simp add: check_mods_def reconcile_def delete_stale_None)
    qed
  qed
qed

text \<open>
  C7, as amended. When the fetch of the manifest fails, \<open>get_remote_mods_dict\<close> raises
  the \<open>RequestException\<close> of \<open>requests.get\<close> on a transport error, and on a status other
  than 200 it raises nothing and returns \<open>None\<close>. \<open>check_mods\<close> ends with an exception
  all the same: with the error of \<open>os.makedirs\<close>, before any request, when the directory
  cannot be made; otherwise with \<open>RequestException\<close> on a transport error, and on a
  status other than 200 with the error of the inventory, or \<open>AttributeError\<close>
  (\<open>None.items()\<close>) when the inventory is empty, or \<open>TypeError\<close>
  (\<open>local_mod not in None\<close>) when it is not. In every case the pass logs at most the
  request for the manifest, so it removes and downloads nothing, and every file is left
  as it was.
\<close>

theorem manifest_failure_deletes_nothing:
  assumes "fetch_failed (list_mod E server_name)"
  shows "get_remote_mods_dict E server_name w
       = (if list_mod E server_name = Json_error then Inl RequestException else Inr None,
          emit (Get (List_mod server_name)) w)
     \<and> (fst (os_makedirs (mods_directory_of server_name) w) = Inr () \<longrightarrow>
          fst (check_mods E server_name w)
            = (if list_mod E server_name = Json_error then Inl RequestException
               else case get_local_mods_dict E (mods_directory_of server_name)
                           (snd (os_makedirs (mods_directory_of server_name) w)) of
                      Inl e \<Rightarrow> Inl e
                    | Inr L \<Rightarrow> if L = [] then Inl AttributeError else Inl TypeError))
     \<and> (\<forall>e. fst (os_makedirs (mods_directory_of server_name) w) = Inl e \<longrightarrow>
          check_mods E server_name w
            = (Inl e, snd (os_makedirs (mods_directory_of server_name) w)))
     \<and> (\<exists>e. fst (check_mods E server_name w) = Inl e)
     \<and> set (events_since w (snd (check_mods E server_name w))) \<subseteq> {Get (List_mod server_name)}
     \<and> (\<forall>q n. map_of (files w) q = Some n \<longrightarrow>
           map_of (files (snd (check_mods E server_name w))) q = Some n)"
proof -
  have "stopped_early server_name w (check_mods E server_name w)"
    using assms by (rule check_mods_fetch_failed)
  then have "(\<exists>e. fst (check_mods E server_name w) = Inl e)
     \<and> set (events_since w (snd (check_mods E server_name w))) \<subseteq> {Get (List_mod server_name)}
     \<and> (\<forall>q n. map_of (files w) q = Some n \<longrightarrow>
           map_of (files (snd (check_mods E server_name w))) q = Some n)"
    by (rule stopped_earlyD)
  with get_remote_mods_dict_failed [OF assms, of w]
    check_mods_fetch_failed_result [OF assms, of w]
    check_mods_makedirs_fails [of server_name w _ E]
  show ?thesis by blast
qed

theorem manifest_failure_deletes_nothing_witness:
  "fetch_failed (list_mod unavailable_env ''s'')
   \<and> get_remote_mods_dict unavailable_env ''s'' example_world
       = (Inr None, emit (Get (List_mod ''s'')) example_world)
   \<and> fst (os_makedirs (mods_directory_of ''s'') example_world) = Inr ()
   \<and> fst (check_mods unavailable_env ''s'' example_world) = Inl TypeError
   \<and> map_of (files (snd (check_mods unavailable_env ''s'' example_world)))
        [''builds'', ''s'', ''mods'', ''a.jar''] = Some (File True ''h1'')
   \<and> check_mods unavailable_env ''s'' \<lparr>files = [([''builds''], File True ''x'')], events = []\<rparr>
       = (Inl NotADirectoryError, \<lparr>files = [([''builds''], File True ''x'')], events = []\<rparr>)"
proof -
  have h: "fetch_failed (list_mod unavailable_env ''s'')"
    by (simp add: fetch_failed_def unavailable_env_def)
  have ne: "list_mod unavailable_env ''s'' \<noteq> Json_error"
    by (simp add: unavailable_env_def)
  have mk: "os_makedirs (mods_directory_of ''s'') example_world = (Inr (), example_world)"
    by (simp add: os_makedirs_def mods_directory_of_def builds_path_def example_world_def)
  have loc: "get_local_mods_dict unavailable_env (mods_directory_of ''s'') example_world
      = Inr [(''a.jar'', ''h1''), (''b.jar'', ''h2'')]"
    by (simp add: get_local_mods_dict_def iterdir_def is_dir_def mods_directory_of_def
        builds_path_def example_world_def unavailable_env_def example_env_def)
  have f: "map_of (files example_world) [''builds'', ''s'', ''mods'', ''a.jar'']
      = Some (File True ''h1'')"
    by (simp add: example_world_def)
  have mk': "os_makedirs (mods_directory_of ''s'')
        \<lparr>files = [([''builds''], File True ''x'')], events = []\<rparr>
      = (Inl NotADirectoryError, \<lparr>files = [([''builds''], File True ''x'')], events = []\<rparr>)"
    by (simp add: os_makedirs_def mods_directory_of_def builds_path_def)
  show ?thesis
    using h ne mk mk' loc f manifest_failure_deletes_nothing [OF h, of example_world]
      manifest_failure_deletes_nothing
        [OF h, of "\<lparr>files = [([''builds''], File True ''x'')], events = []\<rparr>"]
    by simp
qed

text \<open>
  C7 as stated fails: it asks that a failed fetch surface as an error of the fetch. Here
  the manifest is answered with status 503: \<open>get_remote_mods_dict\<close> returns \<open>None\<close> and
  raises nothing, and \<open>check_mods\<close> ends with \<open>TypeError\<close> on a directory that holds
  mods, with \<open>AttributeError\<close> on a build without a mods directory.
\<close>

theorem manifest_failure_counterexample:
  "list_mod unavailable_env ''s'' = Json 503 Not_json
   \<and> get_remote_mods_dict unavailable_env ''s'' example_world
       = (Inr None, example_world\<lparr>events := [Get (List_mod ''s'')]\<rparr>)
   \<and> check_mods unavailable_env ''s'' example_world
       = (Inl TypeError, example_world\<lparr>events := [Get (List_mod ''s'')]\<rparr>)
   \<and> check_mods unavailable_env ''s'' fresh_world
       = (Inl AttributeError,
          \<lparr>files = [([''builds''], Dir), ([''builds'', ''s''], Dir),
                    ([''builds'', ''s'', ''mods''], Dir)],
           events = [Get (List_mod ''s'')]\<rparr>)"
  by (simp add: unavailable_env_def example_env_def example_world_def fresh_world_def
      get_remote_mods_dict_def emit_def check_mods_def mods_directory_of_def builds_path_def
      os_makedirs_def get_local_mods_dict_def iterdir_def is_dir_def reconcile_def)

section \<open>A build without a mods directory\<close>








section \<open>The version archive\<close>

lemma install_archive_returns: "fst (install_archive E z b w) = Inr ()"
  by (simp add: install_archive_def Let_def split: prod.splits sum.splits)

lemma install_archive_snd:
  "snd (install_archive E z b w)
     = snd (os_remove z (w\<lparr>files := snd (zip_extractall E z b (files w))\<rparr>))"
  by (simp add: install_archive_def Let_def split: prod.splits sum.splits)

lemma install_archive_not_file: "\<not> is_file (files (snd (install_archive E z b w))) z"
  by (simp add: install_archive_snd os_remove_not_file)

lemma install_archive_events:
  "events (snd (install_archive E z b w)) = events w
   \<or> events (snd (install_archive E z b w)) = events w @ [Remove z]"
  using os_remove_events [of z "w\<lparr>files := snd (zip_extractall E z b (files w))\<rparr>"]
  by (simp add: install_archive_snd)

lemma download_fabric_base_200:
  assumes "fabric_archive E s = Stream 200 cl chs en"
    and "fst (download_fabric_base E s w) = Inr ()"
  shows "\<exists>w4. download_fabric_base E s w
           = install_archive E (local_zip_path_of s) (build_path_of s) w4"
proof -
  obtain r1 w1 where mk: "os_makedirs (build_path_of s) w = (r1, w1)"
    by (cases "os_makedirs (build_path_of s) w")
  let ?w2 = "emit (Get (Download_fabric s)) w1"
  obtain r3 w3 where o: "open_wb (local_zip_path_of s) ?w2 = (r3, w3)"
    by (cases "open_wb (local_zip_path_of s) ?w2")
  obtain r4 w4 where wr: "write_chunks (local_zip_path_of s) (total_size_of cl) 0 chs en w3 = (r4, w4)"
    by (cases "write_chunks (local_zip_path_of s) (total_size_of cl) 0 chs en w3")
  from assms mk o wr have "download_fabric_base E s w
      = install_archive E (local_zip_path_of s) (build_path_of s) w4"
    by (cases r1; cases r3; cases r4) (simp_all add: download_fabric_base_def)
  then show ?thesis ..
qed

lemma download_fabric_base_events:
  "\<exists>evs. events (snd (download_fabric_base E s w)) = events w @ evs
     \<and> set evs \<subseteq> {Get (Download_fabric s), Remove (local_zip_path_of s)}"
proof -
  let ?z = "local_zip_path_of s"
  obtain r1 w1 where mk: "os_makedirs (build_path_of s) w = (r1, w1)"
    by (cases "os_makedirs (build_path_of s) w")
  have e1: "events w1 = events w" using os_makedirs_events [of "build_path_of s" w] mk by simp
  let ?w2 = "emit (Get (Download_fabric s)) w1"
  have e2: "events ?w2 = events w @ [Get (Download_fabric s)]" using e1 by simp
  show ?thesis
  proof (cases r1)
    case (Inl e)
    with mk e1 show ?thesis by (simp add: download_fabric_base_def)
  next
    case (Inr u)
    show ?thesis
    proof (cases "fabric_archive E s")
      case Stream_error
      with mk Inr e2 show ?thesis by (simp add: download_fabric_base_def)
    next
      case (Stream st cl chs en)
      show ?thesis
      proof (cases "st = 200")
        case False
        with Stream mk Inr e2 show ?thesis by (simp add: download_fabric_base_def)
      next
        case True
        obtain r3 w3 where o: "open_wb ?z ?w2 = (r3, w3)" by (cases "open_wb ?z ?w2")
        have e3: "events w3 = events w @ [Get (Download_fabric s)]"
          using open_wb_events [of ?z ?w2] o e2 by simp
        obtain r4 w4 where wr: "write_chunks ?z (total_size_of cl) 0 chs en w3 = (r4, w4)"
          by (cases "write_chunks ?z (total_size_of cl) 0 chs en w3")
        have e4: "events w4 = events w @ [Get (Download_fabric s)]"
          using write_chunks_events [of ?z "total_size_of cl" 0 chs en w3] wr e3 by simp
        let ?w5 = "snd (install_archive E ?z (build_path_of s) w4)"
        have e5: "events ?w5 = events w @ [Get (Download_fabric s)]
            \<or> events ?w5 = events w @ [Get (Download_fabric s), Remove ?z]"
          using install_archive_events [of E ?z "build_path_of s" w4] e4 by simp
        have res: "snd (download_fabric_base E s w) = w3
            \<or> snd (download_fabric_base E s w) = w4
            \<or> snd (download_fabric_base E s w) = ?w5"
          using Stream True mk Inr o wr
          by (cases r3; cases r4) (simp_all add: download_fabric_base_def)
        with e3 e4 e5 show ?thesis by auto
      qed
    qed
  qed
qed

lemma zip_not_mods_event: "\<not> is_mods_event s (Remove (local_zip_path_of s))"
  by (simp add: local_zip_path_of_def build_path_of_def mods_directory_of_def)

lemma download_fabric_base_no_mods_event:
  "\<forall>ev \<in> set (events_since w (snd (download_fabric_base E s w))). \<not> is_mods_event s ev"
proof -
  from download_fabric_base_events [of E s w] obtain evs where
    ev: "events (snd (download_fabric_base E s w)) = events w @ evs"
    and sub: "set evs \<subseteq> {Get (Download_fabric s), Remove (local_zip_path_of s)}" by blast
  from ev have "events_since w (snd (download_fabric_base E s w)) = evs"
    by (rule events_since_append)
  with sub zip_not_mods_event [of s] show ?thesis by auto
qed

lemma check_fabric_version_no_mods_event:
  "\<forall>ev \<in> set (events_since w (snd (check_fabric_version E s v w))). \<not> is_mods_event s ev"
  using download_fabric_base_no_mods_event [of w E s]
  by (simp add: check_fabric_version_def Let_def)

lemma download_fabric_base_not_200:
  assumes "fst (os_makedirs (build_path_of s) w) = Inr ()"
    and "fabric_archive E s = Stream st cl chs en" and "st \<noteq> 200"
  shows "fst (download_fabric_base E s w) = Inr ()"
proof -
  from assms(1) obtain w1 where "os_makedirs (build_path_of s) w = (Inr (), w1)"
    by (cases "os_makedirs (build_path_of s) w") auto
  with assms(2,3) show ?thesis by (simp add: download_fabric_base_def)
qed

lemma download_fabric_base_Stream_error:
  assumes "fabric_archive E s = Stream_error"
  shows "\<exists>e. fst (download_fabric_base E s w) = Inl e"
proof -
  obtain r1 w1 where mk: "os_makedirs (build_path_of s) w = (r1, w1)"
    by (cases "os_makedirs (build_path_of s) w")
  with assms show ?thesis by (cases r1) (simp_all add: download_fabric_base_def)
qed

lemma download_fabric_base_installs:
  assumes mk: "fst (os_makedirs (build_path_of s) w) = Inr ()"
    and r: "fabric_archive E s = Stream 200 cl chs Complete"
    and t: "total_size_of cl \<noteq> 0"
    and z: "map_of (files w) (local_zip_path_of s) \<noteq> Some Dir"
  shows "fst (download_fabric_base E s w) = Inr ()"
proof -
  let ?b = "build_path_of s"
  let ?z = "local_zip_path_of s"
  from mk obtain w1 where mk1: "os_makedirs ?b w = (Inr (), w1)"
    by (cases "os_makedirs ?b w") auto
  have f1: "files w1 = snd (makedirs_from [] ?b (files w))"
    using os_makedirs_files [of ?b w] mk1 by simp
  have ok: "fst (makedirs_from [] ?b (files w)) = Inr ()"
    using mk by (simp add: os_makedirs_fst)
  let ?w2 = "emit (Get (Download_fabric s)) w1"
  have dir: "is_dir (files ?w2) ?b"
    using makedirs_from_is_dir [OF ok] f1 by (simp add: is_dir_def)
  have zz: "map_of (files ?w2) (?b @ [''base_fabric.zip'']) \<noteq> Some Dir"
    using makedirs_from_frame [OF not_prefix_zip, of s "files w"] f1 z
    by (simp add: local_zip_path_of_def)
  have "fst (open_wb (?b @ [''base_fabric.zip'']) ?w2) = Inr ()"
    by (rule open_wb_ok [OF dir zz])
  then obtain w3 where o: "open_wb ?z ?w2 = (Inr (), w3)"
    by (cases "open_wb ?z ?w2") (auto simp: local_zip_path_of_def)
  obtain r4 w4 where wr: "write_chunks ?z (total_size_of cl) 0 chs Complete w3 = (r4, w4)"
    by (cases "write_chunks ?z (total_size_of cl) 0 chs Complete w3")
  have r4: "r4 = Inr ()"
    using write_chunks_nonzero [of "total_size_of cl" chs ?z 0 Complete w3] t wr by simp
  show ?thesis
    using mk1 r o wr r4 by (simp add: download_fabric_base_def install_archive_returns)
qed

text \<open>
  C5, as amended. When the extraction of the archive fails, the failure is only logged:
  the installation step returns normally and removes the archive all the same, so no
  archive file is left at its path. More generally, whenever \<open>download_fabric_base\<close> got
  status 200 and returns normally, no archive file is left.
\<close>

theorem failed_extraction_removes_archive:
  "(fst (zip_extractall E local_zip_path build_path (files w)) = Inl e \<longrightarrow>
      fst (install_archive E local_zip_path build_path w) = Inr ()
      \<and> \<not> is_file (files (snd (install_archive E local_zip_path build_path w))) local_zip_path)
   \<and> (fabric_archive E server_name = Stream 200 cl chs en
        \<and> fst (download_fabric_base E server_name w) = Inr () \<longrightarrow>
      \<not> is_file (files (snd (download_fabric_base E server_name w)))
          (local_zip_path_of server_name))"
proof -
  have "\<not> is_file (files (snd (download_fabric_base E server_name w)))
      (local_zip_path_of server_name)"
    if "fabric_archive E server_name = Stream 200 cl chs en"
      and "fst (download_fabric_base E server_name w) = Inr ()"
  proof -
    from download_fabric_base_200 [OF that] obtain w4 where
      "download_fabric_base E server_name w
         = install_archive E (local_zip_path_of server_name) (build_path_of server_name) w4"
      by blast
    then show ?thesis by (simp add: install_archive_not_file)
  qed
  then show ?thesis
    using install_archive_returns [of E local_zip_path build_path w]
      install_archive_not_file [of E local_zip_path build_path w]
    by blast
qed

theorem failed_extraction_removes_archive_witness:
  "fst (zip_extractall example_env (local_zip_path_of ''s'') (build_path_of ''s'')
         (files archive_world)) = Inl BadZipFile
   \<and> fst (install_archive example_env (local_zip_path_of ''s'') (build_path_of ''s'') archive_world)
       = Inr ()
   \<and> \<not> is_file (files (snd (install_archive example_env (local_zip_path_of ''s'')
         (build_path_of ''s'') archive_world))) (local_zip_path_of ''s'')
   \<and> fabric_archive example_env ''s'' = Stream 200 (Some 4) [''PK'', ''zz''] Complete
   \<and> fst (download_fabric_base example_env ''s'' example_world) = Inr ()
   \<and> \<not> is_file (files (snd (download_fabric_base example_env ''s'' example_world)))
          (local_zip_path_of ''s'')"
proof -
  have h1: "fst (zip_extractall example_env (local_zip_path_of ''s'') (build_path_of ''s'')
         (files archive_world)) = Inl BadZipFile"
    by (simp add: example_env_def)
  have h2: "fabric_archive example_env ''s'' = Stream 200 (Some 4) [''PK'', ''zz''] Complete"
    by (simp add: example_env_def)
  have h3: "fst (download_fabric_base example_env ''s'' example_world) = Inr ()"
    by (simp add: download_fabric_base_def example_env_def example_world_def build_path_of_def
        local_zip_path_of_def builds_path_def os_makedirs_def emit_def open_wb_def is_dir_def
        total_size_of_def file_write_def py_percent_def install_archive_def os_remove_def)
  show ?thesis
    using h1 h2 h3
      failed_extraction_removes_archive
        [where E = example_env and local_zip_path = "local_zip_path_of ''s''"
           and build_path = "build_path_of ''s''" and w = archive_world and e = BadZipFile]
      failed_extraction_removes_archive
        [where E = example_env and server_name = "''s''" and w = example_world
           and cl = "Some 4" and chs = "[''PK'', ''zz'']" and en = Complete]
    by simp
qed

text \<open>
  C5 as stated fails: it asks for an error and for the archive to stay. Here the
  extraction raises \<open>BadZipFile\<close>; the step returns normally and the archive is gone.
\<close>

theorem failed_extraction_counterexample:
  "fst (zip_extractall example_env (local_zip_path_of ''s'') (build_path_of ''s'')
         (files archive_world)) = Inl BadZipFile
   \<and> map_of (files archive_world) (local_zip_path_of ''s'') = Some (File True ''PKzz'')
   \<and> install_archive example_env (local_zip_path_of ''s'') (build_path_of ''s'') archive_world
       = (Inr (), \<lparr>files = [([''builds''], Dir), ([''builds'', ''s''], Dir)],
                  events = [Remove [''builds'', ''s'', ''base_fabric.zip'']]\<rparr>)"
  by (simp add: example_env_def archive_world_def install_archive_def os_remove_def emit_def
      local_zip_path_of_def build_path_of_def builds_path_def)

section \<open>The version gate and the run\<close>

lemma version_found_iff: "version_found vs v = (\<exists>version\<in>set vs. version_id version = v)"
  by (induction vs) auto

text \<open>
  C8. \<open>check_fabric_version\<close> takes the version as installed exactly when some installed
  version has an id equal to the required one, as strings. Then it returns with the world
  as it was, so without any request; otherwise it is \<open>download_fabric_base\<close>.
\<close>

theorem check_fabric_version_gate:
  "version_found installed_versions required_version
     = (\<exists>version \<in> set installed_versions. version_id version = required_version)
   \<and> check_fabric_version E server_name required_version w =
       (if \<exists>version \<in> set (get_installed_versions E (files w) (build_path_of server_name)).
             version_id version = required_version
        then (Inr (), w)
        else download_fabric_base E server_name w)
   \<and> ((\<exists>version \<in> set (get_installed_versions E (files w) (build_path_of server_name)).
          version_id version = required_version) \<longrightarrow>
        events_since w (snd (check_fabric_version E server_name required_version w)) = [])"
proof -
  let ?installed = "get_installed_versions E (files w) (build_path_of server_name)"
  have found: "version_found vs required_version
      = (\<exists>version \<in> set vs. version_id version = required_version)" for vs
    by (rule version_found_iff)
  have run: "check_fabric_version E server_name required_version w
      = (if version_found ?installed required_version then (Inr (), w)
         else download_fabric_base E server_name w)"
    by (simp add: check_fabric_version_def)
  show ?thesis
    unfolding run found by simp
qed

theorem check_fabric_version_gate_witness:
  "version_found (get_installed_versions example_env (files example_world) (build_path_of ''s''))
     ''fabric-loader-0.15.11-1.20.1''
   \<and> check_fabric_version example_env ''s'' ''fabric-loader-0.15.11-1.20.1'' example_world
       = (Inr (), example_world)
   \<and> events_since example_world
        (snd (check_fabric_version example_env ''s'' ''fabric-loader-0.15.11-1.20.1'' example_world))
       = []
   \<and> \<not> version_found
          (get_installed_versions example_env (files example_world) (build_path_of ''s''))
          ''Fabric-Loader-0.15.11-1.20.1''
   \<and> check_fabric_version example_env ''s'' ''Fabric-Loader-0.15.11-1.20.1'' example_world
       = download_fabric_base example_env ''s'' example_world"
  using check_fabric_version_gate
      [where E = example_env and server_name = "''s''"
         and required_version = "''fabric-loader-0.15.11-1.20.1''" and w = example_world
         and installed_versions
           = "get_installed_versions example_env (files example_world) (build_path_of ''s'')"]
    check_fabric_version_gate
      [where E = example_env and server_name = "''s''"
         and required_version = "''Fabric-Loader-0.15.11-1.20.1''" and w = example_world
         and installed_versions
           = "get_installed_versions example_env (files example_world) (build_path_of ''s'')"]
  by (simp add: example_env_def)

text \<open>
  C3, as amended. When the version step ends with an exception, so does the run, and no
  event of a reconciliation pass has been logged. When the version step returns normally,
  the run goes on with \<open>check_mods\<close>. For a version that is not installed, the step ends
  with an exception when the request for the archive raises; it returns normally when the
  status is not 200, and when the archive was streamed to its end, whatever the extraction
  does.
\<close>

theorem bootstrap_exception_aborts_run:
  "(fst (check_fabric_version E server_name required_version w) = Inl e \<longrightarrow>
      play_game_run E server_name required_version w
        = check_fabric_version E server_name required_version w
      \<and> (\<forall>ev \<in> set (events_since w (snd (play_game_run E server_name required_version w))).
            \<not> is_mods_event server_name ev))
   \<and> (fst (check_fabric_version E server_name required_version w) = Inr () \<longrightarrow>
      play_game_run E server_name required_version w
        = check_mods E server_name (snd (check_fabric_version E server_name required_version w)))
   \<and> (\<not> version_found (get_installed_versions E (files w) (build_path_of server_name))
            required_version
        \<and> fabric_archive E server_name = Stream_error \<longrightarrow>
      (\<exists>e'. fst (check_fabric_version E server_name required_version w) = Inl e'))
   \<and> (\<not> version_found (get_installed_versions E (files w) (build_path_of server_name))
            required_version
        \<and> fst (os_makedirs (build_path_of server_name) w) = Inr ()
        \<and> fabric_archive E server_name = Stream st cl chs en \<and> st \<noteq> 200 \<longrightarrow>
      fst (check_fabric_version E server_name required_version w) = Inr ())
   \<and> (\<not> version_found (get_installed_versions E (files w) (build_path_of server_name))
            required_version
        \<and> fst (os_makedirs (build_path_of server_name) w) = Inr ()
        \<and> fabric_archive E server_name = Stream 200 cl chs Complete
        \<and> total_size_of cl \<noteq> 0
        \<and> map_of (files w) (local_zip_path_of server_name) \<noteq> Some Dir \<longrightarrow>
      fst (check_fabric_version E server_name required_version w) = Inr ())"
proof -
  let ?cfv = "check_fabric_version E server_name required_version w"
  obtain r1 w1 where c: "?cfv = (r1, w1)" by (cases ?cfv)
  have a: "fst ?cfv = Inl e \<Longrightarrow> play_game_run E server_name required_version w = ?cfv"
    using c by (simp add: play_game_run_def)
  have b: "fst ?cfv = Inr () \<Longrightarrow>
      play_game_run E server_name required_version w = check_mods E server_name (snd ?cfv)"
    using c by (simp add: play_game_run_def)
  have nf: "\<not> version_found (get_installed_versions E (files w) (build_path_of server_name))
      required_version \<Longrightarrow> ?cfv = download_fabric_base E server_name w"
    by (simp add: check_fabric_version_def)
  show ?thesis
    using a b nf check_fabric_version_no_mods_event [of w E server_name required_version]
      download_fabric_base_Stream_error [of E server_name w]
      download_fabric_base_not_200 [of server_name w E st cl chs en]
      download_fabric_base_installs [of server_name w E cl chs]
    by auto
qed

theorem bootstrap_exception_aborts_run_witness:
  "\<not> version_found (get_installed_versions offline_env (files example_world) (build_path_of ''s''))
        ''v2''
   \<and> fabric_archive offline_env ''s'' = Stream_error
   \<and> fst (check_fabric_version offline_env ''s'' ''v2'' example_world) = Inl RequestException
   \<and> play_game_run offline_env ''s'' ''v2'' example_world
       = check_fabric_version offline_env ''s'' ''v2'' example_world
   \<and> events_since example_world (snd (play_game_run offline_env ''s'' ''v2'' example_world))
       = [Get (Download_fabric ''s'')]
   \<and> \<not> version_found (get_installed_versions not_found_env (files example_world)
          (build_path_of ''s'')) ''v2''
   \<and> fst (os_makedirs (build_path_of ''s'') example_world) = Inr ()
   \<and> fabric_archive not_found_env ''s'' = Stream 404 None [] Complete
   \<and> fst (check_fabric_version not_found_env ''s'' ''v2'' example_world) = Inr ()
   \<and> play_game_run not_found_env ''s'' ''v2'' example_world
       = check_mods not_found_env ''s''
           (snd (check_fabric_version not_found_env ''s'' ''v2'' example_world))
   \<and> fabric_archive example_env ''s'' = Stream 200 (Some 4) [''PK'', ''zz''] Complete
   \<and> total_size_of (Some 4) \<noteq> 0
   \<and> map_of (files example_world) (local_zip_path_of ''s'') \<noteq> Some Dir
   \<and> fst (check_fabric_version example_env ''s'' ''v2'' example_world) = Inr ()"
proof -
  have nf: "\<not> version_found (get_installed_versions E (files example_world) (build_path_of ''s''))
        ''v2''" if "get_installed_versions E = get_installed_versions example_env" for E
    using that by (simp add: example_env_def)
  have h1: "check_fabric_version offline_env ''s'' ''v2'' example_world
      = (Inl RequestException, example_world\<lparr>events := [Get (Download_fabric ''s'')]\<rparr>)"
    by (simp add: check_fabric_version_def download_fabric_base_def offline_env_def
        example_env_def example_world_def build_path_of_def builds_path_def os_makedirs_def
        emit_def)
  have h2: "fst (os_makedirs (build_path_of ''s'') example_world) = Inr ()"
    by (simp add: example_world_def build_path_of_def builds_path_def os_makedirs_def)
  have h3: "map_of (files example_world) (local_zip_path_of ''s'') \<noteq> Some Dir"
    by (simp add: example_world_def local_zip_path_of_def build_path_of_def builds_path_def)
  have ev: "events_since example_world
      (example_world\<lparr>events := [Get (Download_fabric ''s'')]\<rparr>) = [Get (Download_fabric ''s'')]"
    by (simp add: events_since_def example_world_def)
  show ?thesis
    using h1 h2 h3 ev nf [of offline_env] nf [of not_found_env] nf [of example_env]
      bootstrap_exception_aborts_run
        [where E = offline_env and server_name = "''s''" and required_version = "''v2''"
           and w = example_world and e = RequestException]
      bootstrap_exception_aborts_run
        [where E = not_found_env and server_name = "''s''" and required_version = "''v2''"
           and w = example_world and st = 404 and cl = None and chs = "[]" and en = Complete]
      bootstrap_exception_aborts_run
        [where E = example_env and server_name = "''s''" and required_version = "''v2''"
           and w = example_world and cl = "Some 4" and chs = "[''PK'', ''zz'']"]
    by (simp add: offline_env_def not_found_env_def example_env_def total_size_of_def)
qed

text \<open>
  C3 as stated fails: it asks that a failed bootstrap never be followed by reconciliation.
  Here the required version is not installed and the archive request is answered with 404;
  the run goes on, fetches the manifest, removes \<open>a.jar\<close> and requests \<open>c.jar\<close>.
\<close>

theorem failed_bootstrap_counterexample:
  "\<not> version_found (get_installed_versions not_found_env (files example_world)
        (build_path_of ''s'')) ''v2''
   \<and> fabric_archive not_found_env ''s'' = Stream 404 None [] Complete
   \<and> fst (play_game_run not_found_env ''s'' ''v2'' example_world) = Inr ()
   \<and> events (snd (play_game_run not_found_env ''s'' ''v2'' example_world))
       = [Get (Download_fabric ''s''), Get (List_mod ''s''),
          Remove [''builds'', ''s'', ''mods'', ''a.jar''], Get (Download_mod ''s'' ''c.jar'')]
   \<and> map_of (files example_world) [''builds'', ''s'', ''mods'', ''a.jar'']
       = Some (File True ''h1'')
   \<and> map_of (files (snd (play_game_run not_found_env ''s'' ''v2'' example_world)))
        [''builds'', ''s'', ''mods'', ''a.jar''] = None"
  by (simp add: play_game_run_def check_fabric_version_def download_fabric_base_def
      not_found_env_def example_env_def example_world_def build_path_of_def builds_path_def
      local_zip_path_of_def os_makedirs_def emit_def check_mods_def mods_directory_of_def
      get_remote_mods_dict_def json_loads_def get_local_mods_dict_def iterdir_def is_dir_def
      reconcile_def os_remove_def download_mod_def)

section \<open>Deleting a build\<close>

lemma map_of_rmtree_None: "map_of (filter (\<lambda>(q, n). \<not> prefix p q) fs) p = None"
  by (induction fs) auto

lemma shutil_rmtree_gone: "map_of (files (snd (shutil_rmtree p w))) p \<noteq> Some Dir"
  by (auto simp: shutil_rmtree_def emit_def map_of_rmtree_None split: option.splits node.splits)

lemma shutil_rmtree_fail:
  "map_of (files w) p \<noteq> Some Dir \<Longrightarrow> snd (shutil_rmtree p w) = w"
  by (auto simp: shutil_rmtree_def split: option.splits node.splits)

lemma delete_build_returns: "fst (delete_build server_name w) = Inr ()"
  by (simp add: delete_build_def split: prod.splits sum.splits)

lemma delete_build_snd:
  "snd (delete_build server_name w) = snd (shutil_rmtree (build_path_of server_name) w)"
  by (simp add: delete_build_def split: prod.splits sum.splits)

text \<open>
  C9. \<open>delete_build\<close> never raises. On a build whose directory does not exist it
  returns normally and changes nothing; called a second time right after a first call, it
  again returns normally and changes nothing more.
\<close>

theorem delete_build_idempotent:
  "fst (delete_build server_name w) = Inr ()
   \<and> (map_of (files w) (build_path_of server_name) = None \<longrightarrow>
        delete_build server_name w = (Inr (), w))
   \<and> delete_build server_name (snd (delete_build server_name w))
       = (Inr (), snd (delete_build server_name w))"
proof -
  let ?w1 = "snd (delete_build server_name w)"
  have gone: "map_of (files ?w1) (build_path_of server_name) \<noteq> Some Dir"
    by (simp add: delete_build_snd shutil_rmtree_gone)
  have second: "snd (delete_build server_name ?w1) = ?w1"
    using gone by (simp add: delete_build_snd [of server_name ?w1] shutil_rmtree_fail)
  have absent: "map_of (files w) (build_path_of server_name) = None \<Longrightarrow>
      snd (delete_build server_name w) = w"
    by (simp add: delete_build_snd shutil_rmtree_fail)
  show ?thesis
    using second absent delete_build_returns [of server_name w]
      delete_build_returns [of server_name ?w1]
    by (metis prod.collapse)
qed

theorem delete_build_idempotent_witness:
  "map_of (files \<lparr>files = [([''builds''], Dir)], events = []\<rparr>) (build_path_of ''s'') = None
   \<and> delete_build ''s'' \<lparr>files = [([''builds''], Dir)], events = []\<rparr>
       = (Inr (), \<lparr>files = [([''builds''], Dir)], events = []\<rparr>)"
  using delete_build_idempotent [of "''s''" "\<lparr>files = [([''builds''], Dir)], events = []\<rparr>"]
  by (simp add: build_path_of_def builds_path_def)

end
